theory Spec2Isabelle
  imports Complex_Main
begin

section \<open>Multi-task Gaussian-process kernels: the \<open>Kernels\<close> class of \<open>marcia/Archive/kernels.py\<close>\<close>

text \<open>
  The embedding follows the Python source function by function. Floating-point numbers are
  taken as real numbers, so rounding, overflow and underflow are outside the model. Every
  \<open>raise\<close> of the source, and every exception Python itself raises on the way (a missing
  dictionary key, an index out of range, an unbound name, an operand of the wrong type), is a
  value \<open>Inl e\<close> of the result type.
\<close>

subsection \<open>Values and exceptions\<close>

datatype py_error =
    ValueError string
  | KeyError string
  | IndexError
  | NameError string
  | TypeError
  | AttributeError string
  | LibraryError string

text \<open>
  The smoothness parameter is loosely typed in the source: the configuration may hold the
  string sentinel \<open>'0.0'\<close> or a number.
\<close>

datatype nu = NuStr string | NuNum real

text \<open>
  What a basis-function call can hand back: a number, the not-a-number of a \<open>0/0\<close>, or
  the triple the backend returns for a general smoothness.
\<close>

datatype pyval = Num real | NaN | Tup3 real real real

text \<open>
  The collaborators that are not part of the module: the compiled backend
  \<open>marcia.backend.kernel\<close>, the special function \<open>scipy.special.kv\<close>, the quadrature
  \<open>scipy.integrate.quad\<close>, the argument validation and the evaluation of a
  \<open>RegularGridInterpolator\<close>, and \<open>numpy.block\<close>. Each is a parameter that may return
  or raise; nothing is assumed about them. \<open>completion_order\<close> gives, for the grid build
  of a task pair, the order in which the pool's workers finish. A query handed to an
  interpolator is a list of coordinates, each a scalar or a two-dimensional array.
\<close>

datatype coord = Scalar real | Array2 "real list list"

datatype rgi = RGI
  (grid_tau: "real list") (grid_l2: "real list") (grid_l1: "real list")
  (grid_values: "real list list list")
  (bounds_error: bool) (fill_value: "real option")

datatype covmat_entry = Interpolator rgi | NpTransposed covmat_entry

record externals =
  kernel_gMdef :: "real \<Rightarrow> real \<Rightarrow> nu \<Rightarrow> py_error + pyval"
  kernel_gdMdef :: "real \<Rightarrow> real \<Rightarrow> nu \<Rightarrow> py_error + pyval"
  sp_kv :: "real \<Rightarrow> real \<Rightarrow> py_error + real"
  quad :: "(real \<Rightarrow> py_error + pyval) \<Rightarrow> py_error + real"
  rgi_check :: "real list \<Rightarrow> real list \<Rightarrow> real list \<Rightarrow> real list list list \<Rightarrow> py_error + unit"
  interp_call :: "rgi \<Rightarrow> coord list \<Rightarrow> py_error + real list list"
  np_block :: "real list list list list \<Rightarrow> py_error + real list list"
  completion_order :: "nat \<times> nat \<Rightarrow> nat list"

subsection \<open>The basis function \<open>gMdef\<close> and its derivative \<open>gdMdef\<close>\<close>

text \<open>
  Python's \<open>nu == '0.0'\<close> and \<open>nu == 5/2\<close>: a string never equals a number.
\<close>

fun py_eq_str :: "nu \<Rightarrow> string \<Rightarrow> bool" where
  "py_eq_str (NuStr s) t = (s = t)"
| "py_eq_str (NuNum r) t = False"

fun py_eq_num :: "nu \<Rightarrow> real \<Rightarrow> bool" where
  "py_eq_num (NuNum r) q = (r = q)"
| "py_eq_num (NuStr s) q = False"

datatype branch = SquaredExponential | Matern52 | Matern72 | GeneralMatern

text \<open>The \<open>if\<close>/\<open>elif\<close> chain of \<open>gMdef\<close>, in the order of the source.\<close>

definition gMdef_branch :: "nu \<Rightarrow> branch" where
  "gMdef_branch n =
     (if py_eq_str n ''0.0'' then SquaredExponential
      else if py_eq_num n (5 / 2) then Matern52
      else if py_eq_num n (7 / 2) then Matern72
      else GeneralMatern)"

text \<open>
  \<open>np.exp(- (x**2.)/(2. * l1**2.))\<close> with \<open>x = np.abs(tau)\<close>. At \<open>l1 = 0\<close> the
  floating-point quotient is \<open>-inf\<close> (and the exponential \<open>0\<close>) for \<open>x \<noteq> 0\<close> and
  not-a-number for \<open>x = 0\<close>; numpy warns and does not raise.
\<close>

definition squared_exponential :: "real \<Rightarrow> real \<Rightarrow> pyval" where
  "squared_exponential x l1 =
     (if l1 = 0 then (if x = 0 then NaN else Num 0)
      else Num (exp (- (x ^ 2) / (2 * l1 ^ 2))))"

text \<open>
  In the 5/2 branch and in the general branch the backend is called first; the bare names
  \<open>_spkv_\<close> and \<open>_spgamma_\<close> are looked up afterwards. They are methods of the class and
  are not bound in the function's scope or in the module, so the lookup raises. In the
  general branch the backend's result is unpacked into three names before that.
\<close>

definition gMdef :: "externals \<Rightarrow> real \<Rightarrow> nu \<Rightarrow> real \<Rightarrow> py_error + pyval" where
  "gMdef E tau n l1 =
     (let x = \<bar>tau\<bar> in
      case gMdef_branch n of
        SquaredExponential \<Rightarrow> Inr (squared_exponential x l1)
      | Matern52 \<Rightarrow>
          (case kernel_gMdef E tau l1 n of
             Inl e \<Rightarrow> Inl e
           | Inr v \<Rightarrow> Inl (NameError ''_spkv_''))
      | Matern72 \<Rightarrow> kernel_gMdef E tau l1 n
      | GeneralMatern \<Rightarrow>
          (case kernel_gMdef E tau l1 n of
             Inl e \<Rightarrow> Inl e
           | Inr (Tup3 A B C) \<Rightarrow> Inl (NameError ''_spgamma_'')
           | Inr _ \<Rightarrow> Inl TypeError))"

text \<open>
  \<open>gdMdef\<close>: the first statement does arithmetic on \<open>nu\<close> (\<open>2. * nu\<close> with a string
  operand is a type error) and calls \<open>sp.special.kv\<close>; the second statement looks up
  \<open>_spgamma_\<close>. The arguments handed to \<open>kv\<close> are written over the reals; the parameter
  \<open>sp_kv\<close> is arbitrary, so no theorem depends on them.
\<close>

definition gdMdef :: "externals \<Rightarrow> real \<Rightarrow> nu \<Rightarrow> real \<Rightarrow> py_error + pyval" where
  "gdMdef E tau n l1 =
     (case n of
        NuStr s \<Rightarrow> Inl TypeError
      | NuNum r \<Rightarrow>
          (case sp_kv E (1 / 4 * (5 - 2 * r)) (sqrt 2 * sqrt r * sqrt (tau ^ 2) / l1) of
             Inl e \<Rightarrow> Inl e
           | Inr B \<Rightarrow> Inl (NameError ''_spgamma_'')))"

subsection \<open>The convolution integrand and the grid build \<open>KcMM\<close>\<close>

text \<open>Sequencing of results: the first exception ends the computation.\<close>

definition bind_res :: "'e + 'a \<Rightarrow> ('a \<Rightarrow> 'e + 'b) \<Rightarrow> 'e + 'b" where
  "bind_res r f = (case r of Inl e \<Rightarrow> Inl e | Inr v \<Rightarrow> f v)"

text \<open>A list comprehension whose body may raise: the first failure, in list order, wins.\<close>

fun sequence_res :: "('e + 'a) list \<Rightarrow> 'e + 'a list" where
  "sequence_res [] = Inr []"
| "sequence_res (r # rs) =
     (case r of
        Inl e \<Rightarrow> Inl e
      | Inr v \<Rightarrow> (case sequence_res rs of Inl e \<Rightarrow> Inl e | Inr vs \<Rightarrow> Inr (v # vs)))"

text \<open>The product of two basis-function values; a tuple times a float is a type error.\<close>

fun py_mul :: "pyval \<Rightarrow> pyval \<Rightarrow> py_error + pyval" where
  "py_mul (Num a) (Num b) = Inr (Num (a * b))"
| "py_mul (Num a) NaN = Inr NaN"
| "py_mul NaN (Num b) = Inr NaN"
| "py_mul NaN NaN = Inr NaN"
| "py_mul (Tup3 a b c) v = Inl TypeError"
| "py_mul (Num a) (Tup3 b c d) = Inl TypeError"
| "py_mul NaN (Tup3 b c d) = Inl TypeError"

text \<open>
  The state of a \<open>Kernels\<close> object. \<open>nu1\<close> and \<open>nu2\<close> are unset until the pair loop
  assigns them. \<open>dispatched\<close> is not an attribute of the source: it counts the work items
  handed to the worker pool so far.
\<close>

record kernels =
  nTasks :: nat
  nmodel :: nat
  nus :: "nu list"
  data :: "real list list"
  ndata :: nat
  nu1 :: "nu option"
  nu2 :: "nu option"
  CovMat :: "string \<rightharpoonup> covmat_entry"
  data_tau :: "string \<rightharpoonup> real list list"
  dispatched :: nat

text \<open>
  \<open>gMMdef_integrand\<close> unpacks its argument as \<open>tau, l1, l2\<close> and integrates
  \<open>gMdef(u, nu1, l1) * gMdef(tau - u, nu2, l2)\<close> over the real line; of the pair that
  \<open>quad\<close> returns it keeps the integral.
\<close>

definition gMMdef_integrand :: "externals \<Rightarrow> kernels \<Rightarrow> real \<times> real \<times> real \<Rightarrow> py_error + real" where
  "gMMdef_integrand E K params =
     (case params of (tau, l1, l2) \<Rightarrow>
        (case nu1 K of
           None \<Rightarrow> Inl (AttributeError ''nu1'')
         | Some n1 \<Rightarrow>
             (case nu2 K of
                None \<Rightarrow> Inl (AttributeError ''nu2'')
              | Some n2 \<Rightarrow>
                  quad E (\<lambda>u. bind_res (gMdef E u n1 l1)
                                (\<lambda>a. bind_res (gMdef E (tau - u) n2 l2) (\<lambda>b. py_mul a b))))))"

text \<open>\<open>itertools.product\<close> of three sequences: the last one varies fastest.\<close>

definition product3 :: "'a list \<Rightarrow> 'b list \<Rightarrow> 'c list \<Rightarrow> ('a \<times> 'b \<times> 'c) list" where
  "product3 xs ys zs = List.product xs (List.product ys zs)"

text \<open>
  Modelled from the spec: the worker pool behind \<open>pool.map\<close> (the \<open>multiprocessing\<close>
  library, not part of the repository). The work items are handed out, the workers finish
  in the order \<open>sched\<close> (a list of item indices), each result is stored in the slot of its
  item, and the build is a barrier: a slot left empty is a failure. When a worker raised,
  the exception of the first worker to fail, in completion order, is raised in the caller;
  otherwise the results are returned in the order of the items.
\<close>

fun pool_run :: "('a \<Rightarrow> 'e + 'b) \<Rightarrow> 'a list \<Rightarrow> nat list \<Rightarrow> ('e + 'b) option list \<Rightarrow> ('e + 'b) option list" where
  "pool_run f xs [] slots = slots"
| "pool_run f xs (i # sched) slots = pool_run f xs sched (slots[i := Some (f (xs ! i))])"

fun collect_slot :: "(py_error + 'b) option \<Rightarrow> py_error + 'b" where
  "collect_slot None = Inl (LibraryError ''pool: missing result'')"
| "collect_slot (Some r) = r"

definition pool_map :: "('a \<Rightarrow> py_error + 'b) \<Rightarrow> 'a list \<Rightarrow> nat list \<Rightarrow> py_error + 'b list" where
  "pool_map f xs sched =
     (let slots = pool_run f xs (filter (\<lambda>i. i < length xs) sched) (replicate (length xs) None) in
      case List.find (\<lambda>s. case s of Some (Inl e) \<Rightarrow> True | _ \<Rightarrow> False)
             (map (\<lambda>i. slots ! i) (filter (\<lambda>i. i < length xs) sched)) of
        Some (Some (Inl e)) \<Rightarrow> Inl e
      | _ \<Rightarrow> sequence_res (map collect_slot slots))"

text \<open>A completion order is valid when every work item finishes exactly once.\<close>

definition valid_schedule :: "nat \<Rightarrow> nat list \<Rightarrow> bool" where
  "valid_schedule n sched = (distinct sched \<and> set sched = {..<n})"

text \<open>
  \<open>np.array(integrals).reshape((nt, n2, n1))\<close>: row-major, entry \<open>(a, b, c)\<close> is element
  \<open>a * n2 * n1 + b * n1 + c\<close> of the flat list.
\<close>

definition reshape3 :: "nat \<Rightarrow> nat \<Rightarrow> nat \<Rightarrow> 'a list \<Rightarrow> 'a list list list" where
  "reshape3 nt n2 n1 xs =
     map (\<lambda>a. map (\<lambda>b. map (\<lambda>c. xs ! (a * n2 * n1 + b * n1 + c)) [0..<n1]) [0..<n2]) [0..<nt]"

text \<open>
  \<open>KcMM\<close>: the work items are the product of the lag, \<open>l2\<close> and \<open>l1\<close> axes, in that
  order; the interpolator is built with \<open>bounds_error=False\<close> and \<open>fill_value=None\<close>.
\<close>

definition KcMM :: "externals \<Rightarrow> kernels \<Rightarrow> nat list \<Rightarrow> real list \<Rightarrow> real list \<Rightarrow> real list \<Rightarrow> py_error + rgi" where
  "KcMM E K sched l1_values l2_values tau_values =
     (let params = product3 tau_values l2_values l1_values in
      bind_res (pool_map (gMMdef_integrand E K) params sched) (\<lambda>integrals.
        let arr = reshape3 (length tau_values) (length l2_values) (length l1_values) integrals in
        bind_res (rgi_check E tau_values l2_values l1_values arr) (\<lambda>_.
          Inr (RGI tau_values l2_values l1_values arr False None))))"

text \<open>
  The grid build as the spec words it, for comparison with \<open>KcMM\<close>. The
  ConvolutionIntegrator (spec, section 4.2) takes a coordinate \<open>(lag, l1, l2)\<close> and the
  pair's two smoothness values and integrates \<open>gMdef(u, nu1, l1) * gMdef(lag - u, nu2, l2)\<close>
  over the real line. The KernelGridBuilder (section 4.3) evaluates it at every coordinate,
  one after the other, row-major over lag, then \<open>l2\<close>, then \<open>l1\<close>, into a dense array
  indexed by \<open>(lag, l2, l1)\<close>; this is also the loop of the sequential \<open>KcMM\<close> that the
  module keeps commented out (\<open>integrals[i, j, k]\<close> for \<open>tau\<close>, \<open>l2\<close>, \<open>l1\<close>).
\<close>

definition ConvolutionIntegrator :: "externals \<Rightarrow> nu \<Rightarrow> nu \<Rightarrow> real \<Rightarrow> real \<Rightarrow> real \<Rightarrow> py_error + real" where
  "ConvolutionIntegrator E n1 n2 lag l1 l2 =
     quad E (\<lambda>u. bind_res (gMdef E u n1 l1)
                   (\<lambda>a. bind_res (gMdef E (lag - u) n2 l2) (\<lambda>b. py_mul a b)))"

definition KernelGridBuilder_sequential :: "externals \<Rightarrow> nu \<Rightarrow> nu \<Rightarrow> real list \<Rightarrow> real list \<Rightarrow> real list \<Rightarrow> py_error + rgi" where
  "KernelGridBuilder_sequential E n1 n2 l1_values l2_values tau_values =
     bind_res
       (sequence_res (map (\<lambda>lag.
          sequence_res (map (\<lambda>l2.
            sequence_res (map (\<lambda>l1. ConvolutionIntegrator E n1 n2 lag l1 l2) l1_values))
            l2_values))
          tau_values))
       (\<lambda>arr. bind_res (rgi_check E tau_values l2_values l1_values arr) (\<lambda>_.
          Inr (RGI tau_values l2_values l1_values arr False None)))"

text \<open>
  Modelled from the spec: the bounds guard of an InterpolatedKernel (scipy's
  \<open>RegularGridInterpolator\<close>, not part of the repository). A query outside the fitted
  domain is a bounds error only when the interpolator was built with bounds errors enabled.
\<close>

definition within_axis :: "real list \<Rightarrow> real \<Rightarrow> bool" where
  "within_axis ax x = (ax \<noteq> [] \<and> hd ax \<le> x \<and> x \<le> last ax)"

definition in_domain :: "rgi \<Rightarrow> real \<times> real \<times> real \<Rightarrow> bool" where
  "in_domain g q =
     (case q of (t, b, c) \<Rightarrow>
        within_axis (grid_tau g) t \<and> within_axis (grid_l2 g) b \<and> within_axis (grid_l1 g) c)"

definition rgi_bounds_check :: "rgi \<Rightarrow> real \<times> real \<times> real \<Rightarrow> py_error + unit" where
  "rgi_bounds_check g q =
     (if bounds_error g \<and> \<not> in_domain g q
      then Inl (ValueError ''One of the requested xi is out of bounds'')
      else Inr ())"

subsection \<open>The constructor \<open>Kernels.__init__\<close>\<close>

text \<open>
  The dictionary \<open>GPConfig(filename).__dict__\<close>, as far as the constructor reads it. The
  per-task sections are looked up by the key \<open>Task_<i+1>\<close>.
\<close>

record task_section =
  l_min :: real
  l_max :: real

record MTGP =
  MTGP_models :: "string list"
  MTGP_n_Tasks :: nat
  MTGP_self_scale :: bool
  MTGP_nus :: "nu list"
  MTGP_n_points :: nat
  MTGP_Task :: "string \<rightharpoonup> task_section"

text \<open>Python's \<open>str\<close> of a non-negative integer, as the f-strings format it.\<close>

definition digit_char :: "nat \<Rightarrow> char" where
  "digit_char d = ''0123456789'' ! d"

fun str_nat :: "nat \<Rightarrow> string" where
  "str_nat n = (if n < 10 then [digit_char n] else str_nat (n div 10) @ [digit_char (n mod 10)])"

text \<open>The dictionary keys \<open>f't_{i}{j}'\<close> and \<open>f'Task_{i+1}'\<close>.\<close>

definition pair_key :: "nat \<Rightarrow> nat \<Rightarrow> string" where
  "pair_key i j = ''t_'' @ str_nat i @ str_nat j"

definition task_key :: "nat \<Rightarrow> string" where
  "task_key i = ''Task_'' @ str_nat (i + 1)"

definition mismatch_message :: "nat \<Rightarrow> nat \<Rightarrow> string" where
  "mismatch_message len n =
     ''Error: data length is '' @ str_nat len @ '' and does not match the number of kernels '' @ str_nat n"

text \<open>\<open>np.linspace(start, stop, num)\<close>.\<close>

definition linspace :: "real \<Rightarrow> real \<Rightarrow> nat \<Rightarrow> real list" where
  "linspace start stop num =
     (if num = 1 then [start]
      else map (\<lambda>k. start + real k * ((stop - start) / real (num - 1))) [0..<num])"

text \<open>\<open>x[:, None] - y[None, :]\<close>: the matrix of pairwise differences.\<close>

definition lag_matrix :: "real list \<Rightarrow> real list \<Rightarrow> real list list" where
  "lag_matrix xs ys = map (\<lambda>x. map (\<lambda>y. x - y) ys) xs"

text \<open>Indexing a list and a dictionary; out of range and a missing key raise.\<close>

definition nth_res :: "'a list \<Rightarrow> nat \<Rightarrow> py_error + 'a" where
  "nth_res xs i = (if i < length xs then Inr (xs ! i) else Inl IndexError)"

definition lookup_res :: "(string \<rightharpoonup> 'a) \<Rightarrow> string \<Rightarrow> py_error + 'a" where
  "lookup_res m k = (case m k of None \<Rightarrow> Inl (KeyError k) | Some v \<Rightarrow> Inr v)"

text \<open>
  A statement of the constructor either completes with the updated object or raises; the
  object as it was when the exception was raised is kept with the exception.
\<close>

type_synonym init_result = "(py_error \<times> kernels) + kernels"

definition try_at :: "kernels \<Rightarrow> py_error + 'a \<Rightarrow> ('a \<Rightarrow> init_result) \<Rightarrow> init_result" where
  "try_at K r f = (case r of Inl e \<Rightarrow> Inl (e, K) | Inr v \<Rightarrow> f v)"

text \<open>
  The body of the double loop for the pair \<open>(i, j)\<close>. For \<open>i \<le> j\<close> the grid is built and
  the lag matrix computed, both stored under the key of \<open>(i, j)\<close>. For \<open>i > j\<close> the entries
  under the key of \<open>(i, j)\<close> are read and written under the key of \<open>(j, i)\<close>.
\<close>

definition pair_step :: "externals \<Rightarrow> MTGP \<Rightarrow> kernels \<Rightarrow> nat \<times> nat \<Rightarrow> init_result" where
  "pair_step E cfg K p =
     (case p of (i, j) \<Rightarrow>
      try_at K (nth_res (nus K) i) (\<lambda>n1.
      let K1 = K\<lparr>nu1 := Some n1\<rparr> in
      try_at K1 (nth_res (nus K1) j) (\<lambda>n2.
      let K2 = K1\<lparr>nu2 := Some n2\<rparr> in
      if i \<le> j then
        try_at K2 (lookup_res (MTGP_Task cfg) (task_key i)) (\<lambda>ti.
        try_at K2 (lookup_res (MTGP_Task cfg) (task_key j)) (\<lambda>tj.
        let l1_values = linspace (l_min ti) (l_max ti) (MTGP_n_points cfg);
            l2_values = linspace (l_min tj) (l_max tj) (MTGP_n_points cfg);
            tau_values = linspace (- 10) 10 (MTGP_n_points cfg);
            K3 = K2\<lparr>dispatched :=
                   dispatched K2 + length (product3 tau_values l2_values l1_values)\<rparr>
        in
        try_at K3 (KcMM E K3 (completion_order E (i, j)) l1_values l2_values tau_values) (\<lambda>g.
        let K4 = K3\<lparr>CovMat := (CovMat K3)(pair_key i j \<mapsto> Interpolator g)\<rparr> in
        try_at K4 (nth_res (data K4) i) (\<lambda>xi.
        try_at K4 (nth_res (data K4) j) (\<lambda>xj.
        Inr (K4\<lparr>data_tau := (data_tau K4)(pair_key i j \<mapsto> lag_matrix xi xj)\<rparr>))))))
      else
        try_at K2 (lookup_res (data_tau K2) (pair_key i j)) (\<lambda>v.
        let K3 = K2\<lparr>data_tau := (data_tau K2)(pair_key j i \<mapsto> v)\<rparr> in
        try_at K3 (lookup_res (CovMat K3) (pair_key i j)) (\<lambda>c.
        Inr (K3\<lparr>CovMat := (CovMat K3)(pair_key j i \<mapsto> NpTransposed c)\<rparr>))))))"

fun pair_loop :: "externals \<Rightarrow> MTGP \<Rightarrow> kernels \<Rightarrow> (nat \<times> nat) list \<Rightarrow> init_result" where
  "pair_loop E cfg K [] = Inr K"
| "pair_loop E cfg K (p # ps) =
     (case pair_step E cfg K p of
        Inl ex \<Rightarrow> Inl ex
      | Inr K' \<Rightarrow> pair_loop E cfg K' ps)"

text \<open>\<open>for i in range(nmodel): for j in range(nmodel)\<close>.\<close>

definition all_pairs :: "nat \<Rightarrow> (nat \<times> nat) list" where
  "all_pairs n = List.product [0..<n] [0..<n]"

text \<open>
  The object when the length check is made. The dictionaries \<open>CovMat\<close> and \<open>data_tau\<close> are
  assigned (empty) only after the check; until then they hold nothing either.
\<close>

definition initial_object :: "MTGP \<Rightarrow> real list list \<Rightarrow> kernels" where
  "initial_object cfg dat =
     \<lparr>nTasks = MTGP_n_Tasks cfg, nmodel = MTGP_n_Tasks cfg, nus = MTGP_nus cfg,
      data = dat, ndata = length dat, nu1 = None, nu2 = None,
      CovMat = Map.empty, data_tau = Map.empty, dispatched = 0\<rparr>"

definition Kernels_init :: "externals \<Rightarrow> MTGP \<Rightarrow> real list list \<Rightarrow> init_result" where
  "Kernels_init E cfg dat =
     (let K = initial_object cfg dat in
      if length (data K) \<noteq> nmodel K
      then Inl (ValueError (mismatch_message (length (data K)) (nmodel K)), K)
      else pair_loop E cfg K (all_pairs (nmodel K)))"

subsection \<open>The evaluation \<open>Kernels.__call__\<close>\<close>

text \<open>\<open>pars[i, c]\<close> on a two-dimensional array, for non-negative indices.\<close>

definition par :: "real list list \<Rightarrow> nat \<Rightarrow> nat \<Rightarrow> py_error + real" where
  "par pars i c = bind_res (nth_res pars i) (\<lambda>row. nth_res row c)"

definition scale :: "real \<Rightarrow> real list list \<Rightarrow> real list list" where
  "scale a M = map (map (\<lambda>v. a * v)) M"

text \<open>
  Modelled from the spec: the evaluation of an InterpolatedKernel (scipy's
  \<open>RegularGridInterpolator\<close>, not part of the repository). It is a multilinear
  interpolator over the three coordinate axes \<open>(lag, l2, l1)\<close> of its PairGrid, so a query
  has one coordinate per axis; the library raises \<open>ValueError\<close> for a query with another
  number of coordinates. The value at a query of three coordinates is the parameter
  \<open>interp_call\<close>.
\<close>

definition rgi_call :: "externals \<Rightarrow> rgi \<Rightarrow> coord list \<Rightarrow> py_error + real list list" where
  "rgi_call E g xi =
     (if length xi \<noteq> 3
      then Inl (ValueError ''xi: the number of coordinates differs from the number of grid axes'')
      else interp_call E g xi)"

text \<open>
  Calling a stored entry: an interpolator is evaluated by the library; the result of
  \<open>np.transpose\<close> on an interpolator object is an array, which is not callable.
\<close>

definition call_entry :: "externals \<Rightarrow> covmat_entry \<Rightarrow> coord list \<Rightarrow> py_error + real list list" where
  "call_entry E c xi =
     (case c of Interpolator g \<Rightarrow> rgi_call E g xi | NpTransposed _ \<Rightarrow> Inl TypeError)"

text \<open>
  One element of the nested comprehension, in Python's evaluation order: the amplitudes,
  the stored entry, the length-scales, the lag matrix, the call with the two-element list
  \<open>[pars[i,1] * pars[j,1], data_tau[key]]\<close>, the scaling.
\<close>

definition block :: "externals \<Rightarrow> kernels \<Rightarrow> real list list \<Rightarrow> nat \<Rightarrow> nat \<Rightarrow> py_error + real list list" where
  "block E K pars j i =
     bind_res (par pars i 0) (\<lambda>ai.
     bind_res (par pars j 0) (\<lambda>aj.
     bind_res (lookup_res (CovMat K) (pair_key i j)) (\<lambda>c.
     bind_res (par pars i 1) (\<lambda>li.
     bind_res (par pars j 1) (\<lambda>lj.
     bind_res (lookup_res (data_tau K) (pair_key i j)) (\<lambda>T.
     bind_res (call_entry E c [Scalar (li * lj), Array2 T]) (\<lambda>M.
     Inr (scale (ai * aj) M))))))))"

text \<open>
  \<open>numpy.block\<close> (not part of the repository) raises \<open>ValueError\<close> when the list of
  blocks, or one of its rows, is empty, as its documentation says; on any other list its
  result is the parameter \<open>np_block\<close>.
\<close>

definition np_block_call :: "externals \<Rightarrow> real list list list list \<Rightarrow> py_error + real list list" where
  "np_block_call E bs =
     (if bs = [] \<or> [] \<in> set bs then Inl (ValueError ''List cannot be empty'')
      else np_block E bs)"

text \<open>
  \<open>np.block([[... for i in range(nTasks)] for j in range(nTasks)])\<close>: the outer list runs
  over \<open>j\<close>, the inner one over \<open>i\<close>. The result is also stored in \<open>CovMat_all\<close>.
\<close>

definition Kernels_call :: "externals \<Rightarrow> kernels \<Rightarrow> real list list \<Rightarrow> py_error + real list list" where
  "Kernels_call E K pars =
     bind_res
       (sequence_res (map (\<lambda>j. sequence_res (map (\<lambda>i. block E K pars j i) [0..<nTasks K]))
                          [0..<nTasks K]))
       (np_block_call E)"

subsection \<open>Concrete collaborators and configurations for the examples\<close>

text \<open>
  A small instance of the collaborators, used to run the model on examples: for the
  smoothness 5/2 and 7/2 the backend returns the length-scale it is given, and a triple
  otherwise; the quadrature is a single evaluation of the integrand at \<open>0\<close>; a
  well-formed interpolator query and \<open>np.block\<close> are not evaluated; the workers finish
  last item first.
\<close>

definition example_externals :: externals where
  "example_externals =
     \<lparr>kernel_gMdef = (\<lambda>tau l1 n.
         if py_eq_num n (5 / 2) \<or> py_eq_num n (7 / 2) then Inr (Num l1) else Inr (Tup3 1 1 1)),
      kernel_gdMdef = (\<lambda>tau l1 n. Inr (Tup3 1 1 1)),
      sp_kv = (\<lambda>v z. Inr 1),
      quad = (\<lambda>f. bind_res (f 0)
                (\<lambda>v. case v of Num r \<Rightarrow> Inr r | NaN \<Rightarrow> Inr 0 | Tup3 a b c \<Rightarrow> Inl TypeError)),
      rgi_check = (\<lambda>taus l2s l1s arr. Inr ()),
      interp_call = (\<lambda>g xi. Inl (LibraryError ''RegularGridInterpolator'')),
      np_block = (\<lambda>bs. Inl (LibraryError ''np.block'')),
      completion_order = (\<lambda>p. [7, 6, 5, 4, 3, 2, 1, 0])\<rparr>"

text \<open>Squared-exponential tasks with length-scales in \<open>[1, 2]\<close> and two grid points per axis.\<close>

definition example_config :: "nat \<Rightarrow> MTGP" where
  "example_config n =
     \<lparr>MTGP_models = replicate n ''SE'', MTGP_n_Tasks = n, MTGP_self_scale = False,
      MTGP_nus = replicate n (NuStr ''0.0''), MTGP_n_points = 2,
      MTGP_Task = (\<lambda>k. if k \<in> set (map task_key [0..<n])
                         then Some \<lparr>l_min = 1, l_max = 2\<rparr> else None)\<rparr>"

text \<open>An object in the state the pair loop leaves it in before a grid build of two
  squared-exponential tasks.\<close>

definition example_object :: kernels where
  "example_object =
     (initial_object (example_config 1) [[0]])
       \<lparr>nu1 := Some (NuStr ''0.0''), nu2 := Some (NuStr ''0.0'')\<rparr>"

text \<open>
  The same object for a pair whose first task has smoothness 7/2 and whose second task is
  squared-exponential.
\<close>

definition example_object_mixed :: kernels where
  "example_object_mixed =
     (initial_object (example_config 1) [[0]])
       \<lparr>nu1 := Some (NuNum (7 / 2)), nu2 := Some (NuStr ''0.0'')\<rparr>"


section \<open>Properties\<close>

declare str_nat.simps [simp del]

subsection \<open>Sequencing, the worker pool and the grid layout\<close>

lemma sequence_res_map_Inr: "sequence_res (map Inr vs) = Inr vs"
  by (induction vs) auto

lemma sequence_res_Inr_D: "sequence_res rs = Inr vs \<Longrightarrow> rs = map Inr vs"
proof (induction rs arbitrary: vs)
  case Nil
  then show ?case by auto
next
  case (Cons r rs)
  then show ?case by (auto split: sum.splits)
qed

lemma length_pool_run: "length (pool_run f xs sched slots) = length slots"
  by (induction sched arbitrary: slots) auto

lemma nth_pool_run:
  "k < length slots \<Longrightarrow>
   pool_run f xs sched slots ! k = (if k \<in> set sched then Some (f (xs ! k)) else slots ! k)"
proof (induction sched arbitrary: slots)
  case Nil
  then show ?case by simp
next
  case (Cons i sched)
  then show ?case by (auto simp: nth_list_update)
qed

lemma pool_run_valid:
  assumes "set sched = {..<length xs}"
  shows "pool_run f xs sched (replicate (length xs) None) = map (\<lambda>x. Some (f x)) xs"
  by (rule nth_equalityI) (use assms in \<open>auto simp: length_pool_run nth_pool_run\<close>)

lemma filter_valid: "set sched = {..<n} \<Longrightarrow> filter (\<lambda>i. i < n) sched = sched"
  by (rule filter_True) auto


lemma pool_map_unfold:
  assumes S: "set sched = {..<length xs}"
  shows "pool_map f xs sched =
     (case List.find (\<lambda>s. case s of Some (Inl e) \<Rightarrow> True | _ \<Rightarrow> False)
             (map (\<lambda>i. Some (f (xs ! i))) sched) of
        Some (Some (Inl e)) \<Rightarrow> Inl e
      | _ \<Rightarrow> sequence_res (map f xs))"
proof -
  have M: "map ((!) (map (\<lambda>x. Some (f x)) xs)) sched = map (\<lambda>i. Some (f (xs ! i))) sched"
    using S by (intro map_cong) auto
  have C: "map collect_slot (map (\<lambda>x. Some (f x)) xs) = map f xs"
    by (simp add: comp_def)
  show ?thesis
    unfolding pool_map_def Let_def filter_valid[OF S] pool_run_valid[OF S] M C ..
qed


lemma sequence_res_not_Inr:
  assumes "Inl e \<in> set rs"
  shows "sequence_res rs \<noteq> Inr vs"
proof
  assume "sequence_res rs = Inr vs"
  then have "rs = map Inr vs" by (rule sequence_res_Inr_D)
  with assms show False by auto
qed

lemma pool_map_Inr_iff:
  assumes "valid_schedule (length xs) sched"
  shows "pool_map f xs sched = Inr ys \<longleftrightarrow> sequence_res (map f xs) = Inr ys"
proof -
  from assms have S: "set sched = {..<length xs}" by (simp add: valid_schedule_def)
  let ?P = "\<lambda>s. case s of Some (Inl e) \<Rightarrow> True | _ \<Rightarrow> False"
  let ?rs = "map (\<lambda>i. Some (f (xs ! i))) sched"
  note U = pool_map_unfold[OF S, of f]
  show ?thesis
  proof (cases "\<exists>e. List.find ?P ?rs = Some (Some (Inl e))")
    case True
    then obtain e where F: "List.find ?P ?rs = Some (Some (Inl e))" by blast
    then have "Some (Inl e) \<in> set ?rs" unfolding find_Some_iff by (metis nth_mem)
    then obtain i where i: "i \<in> set sched" "f (xs ! i) = Inl e" by auto
    with S have "i < length xs" by auto
    then have "map f xs ! i \<in> set (map f xs)" by (intro nth_mem) simp
    with i \<open>i < length xs\<close> have "Inl e \<in> set (map f xs)" by simp
    then have "sequence_res (map f xs) \<noteq> Inr ys" by (rule sequence_res_not_Inr)
    moreover have "pool_map f xs sched = Inl e" unfolding U F by simp
    ultimately show ?thesis by simp
  next
    case False
    then have "pool_map f xs sched = sequence_res (map f xs)"
      unfolding U by (auto split: option.splits sum.splits)
    then show ?thesis by simp
  qed
qed

lemma flat_index_lt:
  fixes a b m n :: nat
  assumes "a < m" "b < n"
  shows "a * n + b < m * n"
proof -
  have "a * n + b < a * n + n" using assms by simp
  also have "\<dots> = (a + 1) * n" by simp
  also have "\<dots> \<le> m * n" using assms by (intro mult_le_mono1) simp
  finally show ?thesis .
qed

lemma product_nth_flat:
  assumes "a < length xs" "b < length ys"
  shows "List.product xs ys ! (a * length ys + b) = (xs ! a, ys ! b)"
proof -
  have lt: "a * length ys + b < length xs * length ys"
    using assms by (rule flat_index_lt)
  have pos: "length ys \<noteq> 0" using assms by auto
  have d: "(a * length ys + b) div length ys = a"
    using div_mult_self3[OF pos, of a b] assms by simp
  have m: "(a * length ys + b) mod length ys = b"
    using mod_mult_self3[of a "length ys" b] assms by simp
  show ?thesis
    by (simp only: product_nth[OF lt] d m)
qed

lemma product3_nth:
  assumes "a < length xs" "b < length ys" "c < length zs"
  shows "product3 xs ys zs ! (a * length ys * length zs + b * length zs + c) = (xs ! a, ys ! b, zs ! c)"
proof -
  have bc: "b * length zs + c < length (List.product ys zs)"
    using flat_index_lt[OF assms(2,3)] by simp
  have "List.product xs (List.product ys zs) ! (a * length (List.product ys zs) + (b * length zs + c))
        = (xs ! a, List.product ys zs ! (b * length zs + c))"
    using assms(1) bc by (rule product_nth_flat)
  also have "List.product ys zs ! (b * length zs + c) = (ys ! b, zs ! c)"
    using assms(2,3) by (rule product_nth_flat)
  finally have "List.product xs (List.product ys zs) ! (a * (length ys * length zs) + (b * length zs + c))
        = (xs ! a, ys ! b, zs ! c)"
    by (simp only: length_product)
  moreover have "a * length ys * length zs + b * length zs + c = a * (length ys * length zs) + (b * length zs + c)"
    by (simp only: mult.assoc add.assoc)
  ultimately show ?thesis
    by (simp only: product3_def)
qed

lemma reshape3_nth:
  "a < nt \<Longrightarrow> b < n2 \<Longrightarrow> c < n1 \<Longrightarrow> reshape3 nt n2 n1 xs ! a ! b ! c = xs ! (a * n2 * n1 + b * n1 + c)"
  by (simp add: reshape3_def)

subsection \<open>The grid build\<close>

lemma bind_res_Inr_iff: "bind_res r f = Inr y \<longleftrightarrow> (\<exists>v. r = Inr v \<and> f v = Inr y)"
  by (cases r) (auto simp: bind_res_def)

lemma KcMM_Inr_iff:
  "KcMM E K sched l1s l2s taus = Inr g \<longleftrightarrow>
     (\<exists>ys. pool_map (gMMdef_integrand E K) (product3 taus l2s l1s) sched = Inr ys \<and>
           rgi_check E taus l2s l1s (reshape3 (length taus) (length l2s) (length l1s) ys) = Inr () \<and>
           g = RGI taus l2s l1s (reshape3 (length taus) (length l2s) (length l1s) ys) False None)"
  by (auto simp: KcMM_def Let_def bind_res_Inr_iff)

lemma length_product3: "length (product3 xs ys zs) = length xs * length ys * length zs"
  by (simp add: product3_def)

lemma KcMM_valid_Inr_iff:
  assumes "valid_schedule (length taus * length l2s * length l1s) sched"
  shows "KcMM E K sched l1s l2s taus = Inr g \<longleftrightarrow>
     (\<exists>ys. sequence_res (map (gMMdef_integrand E K) (product3 taus l2s l1s)) = Inr ys \<and>
           rgi_check E taus l2s l1s (reshape3 (length taus) (length l2s) (length l1s) ys) = Inr () \<and>
           g = RGI taus l2s l1s (reshape3 (length taus) (length l2s) (length l1s) ys) False None)"
proof -
  have "valid_schedule (length (product3 taus l2s l1s)) sched"
    using assms by (simp only: length_product3)
  then show ?thesis
    unfolding KcMM_Inr_iff by (simp only: pool_map_Inr_iff)
qed

lemma KcMM_schedule_independent:
  assumes "valid_schedule (length taus * length l2s * length l1s) sched"
    and "valid_schedule (length taus * length l2s * length l1s) sched'"
  shows "KcMM E K sched l1s l2s taus = Inr g \<longleftrightarrow> KcMM E K sched' l1s l2s taus = Inr g"
  unfolding KcMM_valid_Inr_iff[OF assms(1)] KcMM_valid_Inr_iff[OF assms(2)] ..

lemma KcMM_from_values:
  assumes "valid_schedule (length taus * length l2s * length l1s) sched"
    and "sequence_res (map (gMMdef_integrand E K) (product3 taus l2s l1s)) = Inr ys"
    and "reshape3 (length taus) (length l2s) (length l1s) ys = arr"
    and "rgi_check E taus l2s l1s arr = Inr ()"
  shows "KcMM E K sched l1s l2s taus = Inr (RGI taus l2s l1s arr False None)"
  unfolding KcMM_valid_Inr_iff[OF assms(1)] using assms(2-4) by blast

lemma gMMdef_integrand_unpacks:
  "nu1 K = Some n1 \<Longrightarrow> nu2 K = Some n2 \<Longrightarrow>
     gMMdef_integrand E K (tau, x, y) = ConvolutionIntegrator E n1 n2 tau x y"
  by (simp add: gMMdef_integrand_def ConvolutionIntegrator_def)

lemma KcMM_entry:
  assumes "valid_schedule (length taus * length l2s * length l1s) sched"
    and "KcMM E K sched l1s l2s taus = Inr g"
    and "nu1 K = Some n1" "nu2 K = Some n2"
    and "a < length taus" "b < length l2s" "c < length l1s"
  shows "ConvolutionIntegrator E n1 n2 (taus ! a) (l2s ! b) (l1s ! c) = Inr (grid_values g ! a ! b ! c)"
proof -
  let ?ps = "product3 taus l2s l1s"
  let ?k = "a * length l2s * length l1s + b * length l1s + c"
  from assms(2) obtain ys where
    ys: "sequence_res (map (gMMdef_integrand E K) ?ps) = Inr ys"
    and g: "g = RGI taus l2s l1s (reshape3 (length taus) (length l2s) (length l1s) ys) False None"
    unfolding KcMM_valid_Inr_iff[OF assms(1)] by blast
  from ys have M: "map (gMMdef_integrand E K) ?ps = map Inr ys" by (rule sequence_res_Inr_D)
  have k: "?k < length ?ps"
    using flat_index_lt[OF assms(5) flat_index_lt[OF assms(6,7)]]
    by (simp add: length_product3 algebra_simps)
  have "gMMdef_integrand E K (?ps ! ?k) = map (gMMdef_integrand E K) ?ps ! ?k"
    using k by simp
  also have "\<dots> = Inr (ys ! ?k)"
  proof -
    have "length ys = length ?ps" using arg_cong[OF M, of length] by simp
    with k show ?thesis unfolding M by simp
  qed
  finally have "gMMdef_integrand E K (?ps ! ?k) = Inr (ys ! ?k)" .
  moreover have "?ps ! ?k = (taus ! a, l2s ! b, l1s ! c)"
    using assms(5-7) by (rule product3_nth)
  moreover have "grid_values g ! a ! b ! c = ys ! ?k"
    unfolding g using assms(5-7) by (simp add: reshape3_nth)
  ultimately show ?thesis
    using gMMdef_integrand_unpacks[OF assms(3,4)] by simp
qed

subsection \<open>The pair loop of the constructor\<close>

lemma pair_loop_append:
  "pair_loop E cfg K (ps @ qs) =
     (case pair_loop E cfg K ps of Inl ex \<Rightarrow> Inl ex | Inr K' \<Rightarrow> pair_loop E cfg K' qs)"
  by (induction ps arbitrary: K) (auto split: sum.splits)

lemma pair_step_raise_cases:
  "pair_step E cfg K p = Inl (e, K') \<Longrightarrow> e = IndexError \<or> nu1 K' \<noteq> None"
  by (cases p)
     (auto simp: pair_step_def try_at_def Let_def nth_res_def lookup_res_def
           split: if_splits option.splits sum.splits)

lemma pair_loop_raise_cases:
  "pair_loop E cfg K ps = Inl (e, K') \<Longrightarrow> e = IndexError \<or> nu1 K' \<noteq> None"
proof (induction ps arbitrary: K)
  case Nil
  then show ?case by simp
next
  case (Cons p ps)
  show ?case
  proof (cases "pair_step E cfg K p")
    case (Inl ex)
    with Cons.prems have "pair_step E cfg K p = Inl (e, K')" by simp
    then show ?thesis by (rule pair_step_raise_cases)
  next
    case (Inr K1)
    with Cons.prems have "pair_loop E cfg K1 ps = Inl (e, K')" by simp
    then show ?thesis by (rule Cons.IH)
  qed
qed

lemma pair_step_upper_Inr:
  assumes "pair_step E cfg K (i, j) = Inr K'" "i \<le> j"
  shows "nus K' = nus K \<and> data K' = data K \<and>
         dom (data_tau K') = insert (pair_key i j) (dom (data_tau K))"
  using assms
  by (auto simp: pair_step_def try_at_def Let_def nth_res_def lookup_res_def
           split: if_splits option.splits sum.splits)

lemma pair_step_lower_missing:
  assumes "j < i" "data_tau K (pair_key i j) = None"
  shows "\<exists>e K'. pair_step E cfg K (i, j) = Inl (e, K')"
  using assms
  by (auto simp: pair_step_def try_at_def Let_def nth_res_def lookup_res_def)

lemma pair_step_lower_KeyError:
  assumes "j < i" "data_tau K (pair_key i j) = None" "i < length (nus K)"
  shows "pair_step E cfg K (i, j) =
           Inl (KeyError (pair_key i j), K\<lparr>nu1 := Some (nus K ! i), nu2 := Some (nus K ! j)\<rparr>)"
  using assms
  by (auto simp: pair_step_def try_at_def Let_def nth_res_def lookup_res_def)

lemma first_row_Inr:
  "pair_loop E cfg K (map (Pair 0) js) = Inr K' \<Longrightarrow>
     nus K' = nus K \<and> data K' = data K \<and> dom (data_tau K') = dom (data_tau K) \<union> pair_key 0 ` set js"
proof (induction js arbitrary: K)
  case Nil
  then show ?case by simp
next
  case (Cons j js)
  from Cons.prems obtain K1 where
    s: "pair_step E cfg K (0, j) = Inr K1" and l: "pair_loop E cfg K1 (map (Pair 0) js) = Inr K'"
    by (auto split: sum.splits)
  from pair_step_upper_Inr[OF s] Cons.IH[OF l] show ?case by auto
qed


lemma str_nat_0: "str_nat 0 = ''0''"
  by (simp add: str_nat.simps digit_char_def)

lemma str_nat_1: "str_nat (Suc 0) = ''1''"
  by (simp add: str_nat.simps digit_char_def)

lemma pair_key_1_0: "pair_key (Suc 0) 0 = ''t_10''"
  by (simp add: pair_key_def str_nat_0 str_nat_1)

lemma pair_key_0_neq: "pair_key 0 j \<noteq> pair_key 1 0"
  by (simp add: pair_key_def str_nat_0 str_nat_1)

lemma all_pairs_split:
  assumes "2 \<le> n"
  shows "\<exists>rest. all_pairs n = map (Pair 0) [0..<n] @ (1, 0) # rest"
proof -
  have a: "[0..<n] = 0 # [Suc 0..<n]" using assms by (simp add: upt_conv_Cons)
  have b: "[Suc 0..<n] = Suc 0 # [Suc (Suc 0)..<n]" using assms by (simp add: upt_conv_Cons)
  have "List.product [0..<n] [0..<n] =
          map (Pair 0) [0..<n] @ map (Pair (Suc 0)) [0..<n] @ List.product [Suc (Suc 0)..<n] [0..<n]"
    by (subst a, subst b) simp
  moreover have "map (Pair (Suc 0)) [0..<n] = (Suc 0, 0) # map (Pair (Suc 0)) [Suc 0..<n]"
    by (subst a) simp
  ultimately show ?thesis by (simp add: all_pairs_def)
qed

lemma Kernels_init_matching:
  "length dat = MTGP_n_Tasks cfg \<Longrightarrow>
     Kernels_init E cfg dat = pair_loop E cfg (initial_object cfg dat) (all_pairs (MTGP_n_Tasks cfg))"
  by (simp add: Kernels_init_def Let_def initial_object_def)

lemma Kernels_init_mismatch:
  "length dat \<noteq> MTGP_n_Tasks cfg \<Longrightarrow>
     Kernels_init E cfg dat =
       Inl (ValueError (mismatch_message (length dat) (MTGP_n_Tasks cfg)), initial_object cfg dat)"
  by (simp add: Kernels_init_def Let_def initial_object_def)

lemma two_tasks_after_first_row:
  assumes n: "2 \<le> MTGP_n_Tasks cfg" and len: "length dat = MTGP_n_Tasks cfg"
    and row: "pair_loop E cfg (initial_object cfg dat) (map (Pair 0) [0..<MTGP_n_Tasks cfg]) = Inr K0"
  shows "data_tau K0 (pair_key 1 0) = None" and "nus K0 = MTGP_nus cfg"
    and "\<exists>rest. Kernels_init E cfg dat = pair_loop E cfg K0 ((1, 0) # rest)"
proof -
  from first_row_Inr[OF row]
  have d: "dom (data_tau K0) = pair_key 0 ` set [0..<MTGP_n_Tasks cfg]" and "nus K0 = MTGP_nus cfg"
    by (simp_all add: initial_object_def)
  then show "nus K0 = MTGP_nus cfg" by simp
  have "pair_key 1 0 \<notin> dom (data_tau K0)"
    unfolding d using pair_key_0_neq by (metis imageE)
  then show "data_tau K0 (pair_key 1 0) = None" by auto
  from all_pairs_split[OF n] obtain rest where
    "all_pairs (MTGP_n_Tasks cfg) = map (Pair 0) [0..<MTGP_n_Tasks cfg] @ (1, 0) # rest" by blast
  then have "Kernels_init E cfg dat = pair_loop E cfg K0 ((1, 0) # rest)"
    using row by (simp add: Kernels_init_matching[OF len] pair_loop_append)
  then show "\<exists>rest. Kernels_init E cfg dat = pair_loop E cfg K0 ((1, 0) # rest)" by blast
qed

lemma two_tasks_never_complete:
  assumes n: "2 \<le> MTGP_n_Tasks cfg" and len: "length dat = MTGP_n_Tasks cfg"
  shows "\<exists>e K. Kernels_init E cfg dat = Inl (e, K)"
proof (cases "pair_loop E cfg (initial_object cfg dat) (map (Pair 0) [0..<MTGP_n_Tasks cfg])")
  case (Inl ex)
  from all_pairs_split[OF n] obtain rest where
    "all_pairs (MTGP_n_Tasks cfg) = map (Pair 0) [0..<MTGP_n_Tasks cfg] @ (1, 0) # rest" by blast
  then have "Kernels_init E cfg dat = Inl ex"
    using Inl by (simp add: Kernels_init_matching[OF len] pair_loop_append)
  then show ?thesis by (cases ex) auto
next
  case (Inr K0)
  from two_tasks_after_first_row[OF n len Inr] obtain rest where
    m: "data_tau K0 (pair_key 1 0) = None"
    and i: "Kernels_init E cfg dat = pair_loop E cfg K0 ((1, 0) # rest)" by blast
  from pair_step_lower_missing[of 0 1 K0 E cfg] m obtain e K' where
    "pair_step E cfg K0 (1, 0) = Inl (e, K')" by auto
  with i show ?thesis by simp
qed

lemma two_tasks_KeyError:
  assumes n: "2 \<le> MTGP_n_Tasks cfg" and len: "length dat = MTGP_n_Tasks cfg"
    and row: "pair_loop E cfg (initial_object cfg dat) (map (Pair 0) [0..<MTGP_n_Tasks cfg]) = Inr K0"
    and nus: "2 \<le> length (MTGP_nus cfg)"
  shows "Kernels_init E cfg dat =
           Inl (KeyError ''t_10'', K0\<lparr>nu1 := Some (MTGP_nus cfg ! 1), nu2 := Some (MTGP_nus cfg ! 0)\<rparr>)"
proof -
  from two_tasks_after_first_row[OF n len row] obtain rest where
    m: "data_tau K0 (pair_key 1 0) = None" and u: "nus K0 = MTGP_nus cfg"
    and i: "Kernels_init E cfg dat = pair_loop E cfg K0 ((1, 0) # rest)" by blast
  have "pair_step E cfg K0 (1, 0) =
          Inl (KeyError (pair_key 1 0), K0\<lparr>nu1 := Some (nus K0 ! 1), nu2 := Some (nus K0 ! 0)\<rparr>)"
    using m nus u by (intro pair_step_lower_KeyError) auto
  with i u show ?thesis by (simp add: pair_key_1_0)
qed

lemma Kernels_init_Inr_at_most_one:
  assumes "Kernels_init E cfg dat = Inr K"
  shows "MTGP_n_Tasks cfg \<le> 1" and "length dat = MTGP_n_Tasks cfg"
proof -
  show len: "length dat = MTGP_n_Tasks cfg"
    using assms Kernels_init_mismatch[of dat cfg E] by auto
  show "MTGP_n_Tasks cfg \<le> 1"
  proof (rule ccontr)
    assume "\<not> MTGP_n_Tasks cfg \<le> 1"
    then have "2 \<le> MTGP_n_Tasks cfg" by simp
    from two_tasks_never_complete[OF this len, of E] assms show False by auto
  qed
qed

subsection \<open>Claims about the basis functions\<close>

lemma gMdef_branch_squared_exponential_iff:
  "gMdef_branch n = SquaredExponential \<longleftrightarrow> n = NuStr ''0.0''"
  by (cases n) (auto simp: gMdef_branch_def)

text \<open>
  Claim C7. For every lag \<open>tau\<close> and every length-scale \<open>l > 0\<close>, with the smoothness set to
  the squared-exponential sentinel \<open>'0.0'\<close>, \<open>gMdef(tau, nu, l)\<close> returns
  \<open>exp(-tau\<^sup>2 / (2 l\<^sup>2))\<close>.
\<close>

theorem gMdef_squared_exponential:
  "0 < l \<Longrightarrow> gMdef E tau (NuStr ''0.0'') l = Inr (Num (exp (- (tau ^ 2) / (2 * l ^ 2))))"
  by (simp add: gMdef_def gMdef_branch_def squared_exponential_def)

theorem gMdef_squared_exponential_witness:
  "(0::real) < 2 \<and> gMdef example_externals (- 3) (NuStr ''0.0'') 2 = Inr (Num (exp (- (9 / 8))))"
  using gMdef_squared_exponential [of 2 example_externals "- 3"] by simp

text \<open>
  Claim C10. The squared-exponential branch of \<open>gMdef\<close> is selected exactly when the
  smoothness is the string \<open>'0.0'\<close>. A number other than 5/2 and 7/2, the number \<open>0.0\<close>
  included, selects the general Matern branch: the backend is called, its result unpacked
  into three names, and the unbound name \<open>_spgamma_\<close> is reached.
\<close>

theorem gMdef_sentinel_is_exact_string:
  "r \<noteq> 5 / 2 \<Longrightarrow> r \<noteq> 7 / 2 \<Longrightarrow>
   (gMdef_branch n = SquaredExponential \<longleftrightarrow> n = NuStr ''0.0'') \<and>
   gMdef_branch (NuNum r) = GeneralMatern \<and>
   gMdef E tau (NuNum r) l =
     (case kernel_gMdef E tau l (NuNum r) of
        Inl e \<Rightarrow> Inl e
      | Inr (Tup3 A B C) \<Rightarrow> Inl (NameError ''_spgamma_'')
      | Inr _ \<Rightarrow> Inl TypeError)"
  by (simp add: gMdef_branch_squared_exponential_iff) (simp add: gMdef_def gMdef_branch_def)

theorem gMdef_sentinel_is_exact_string_witness:
  "(0::real) \<noteq> 5 / 2 \<and> (0::real) \<noteq> 7 / 2 \<and>
   gMdef_branch (NuNum 0) \<noteq> SquaredExponential \<and>
   gMdef_branch (NuNum 0) = GeneralMatern \<and>
   gMdef example_externals 1 (NuNum 0) 1 = Inl (NameError ''_spgamma_'')"
  using gMdef_sentinel_is_exact_string [of 0 "NuNum 0" example_externals 1 1]
  by (simp add: example_externals_def)

text \<open>
  Claim C9, as stated, fails where the smoothness is a string: \<open>gdMdef\<close> with the sentinel
  \<open>'0.0'\<close> raises a type error in the arithmetic of its first statement, before any
  unbound name is reached.
\<close>

theorem gdMdef_sentinel_counterexample:
  "gdMdef example_externals 1 (NuStr ''0.0'') 1 = Inl TypeError \<and>
   gdMdef example_externals 1 (NuStr ''0.0'') 1 \<noteq> Inl (NameError ''_spgamma_'')"
  by (simp add: gdMdef_def)

text \<open>
  Claim C9, amended. \<open>gMdef\<close> with a smoothness other than the sentinel \<open>'0.0'\<close> and 7/2,
  and \<open>gdMdef\<close> with any smoothness, never return a value. Once the backend call (for
  \<open>gMdef\<close>; with a triple in the general branch) or the special-function call (for
  \<open>gdMdef\<close> with a numeric smoothness) has returned, the exception is the name error of
  the unbound \<open>_spkv_\<close> or \<open>_spgamma_\<close>; \<open>gdMdef\<close> with a string smoothness raises a
  type error instead.
\<close>

theorem gMdef_gdMdef_never_return:
  "(n \<noteq> NuStr ''0.0'' \<longrightarrow> n \<noteq> NuNum (7 / 2) \<longrightarrow> (\<exists>e. gMdef E tau n l = Inl e)) \<and>
   (kernel_gMdef E tau l (NuNum (5 / 2)) = Inr v \<longrightarrow>
      gMdef E tau (NuNum (5 / 2)) l = Inl (NameError ''_spkv_'')) \<and>
   (n \<noteq> NuStr ''0.0'' \<longrightarrow> n \<noteq> NuNum (5 / 2) \<longrightarrow> n \<noteq> NuNum (7 / 2) \<longrightarrow>
      kernel_gMdef E tau l n = Inr (Tup3 A B C) \<longrightarrow>
      gMdef E tau n l = Inl (NameError ''_spgamma_'')) \<and>
   (\<exists>e. gdMdef E tau n l = Inl e) \<and>
   (sp_kv E (1 / 4 * (5 - 2 * r)) (sqrt 2 * sqrt r * sqrt (tau ^ 2) / l) = Inr Bv \<longrightarrow>
      gdMdef E tau (NuNum r) l = Inl (NameError ''_spgamma_'')) \<and>
   gdMdef E tau (NuStr s) l = Inl TypeError"
proof -
  have 1: "n \<noteq> NuStr ''0.0'' \<longrightarrow> n \<noteq> NuNum (7 / 2) \<longrightarrow> (\<exists>e. gMdef E tau n l = Inl e)"
    by (cases n) (auto simp: gMdef_def gMdef_branch_def split: sum.splits pyval.splits)
  have 2: "kernel_gMdef E tau l (NuNum (5 / 2)) = Inr v \<longrightarrow>
      gMdef E tau (NuNum (5 / 2)) l = Inl (NameError ''_spkv_'')"
    by (simp add: gMdef_def gMdef_branch_def)
  have 3: "n \<noteq> NuStr ''0.0'' \<longrightarrow> n \<noteq> NuNum (5 / 2) \<longrightarrow> n \<noteq> NuNum (7 / 2) \<longrightarrow>
      kernel_gMdef E tau l n = Inr (Tup3 A B C) \<longrightarrow>
      gMdef E tau n l = Inl (NameError ''_spgamma_'')"
    by (cases n) (auto simp: gMdef_def gMdef_branch_def)
  have 4: "\<exists>e. gdMdef E tau n l = Inl e"
    by (cases n) (auto simp: gdMdef_def split: sum.splits)
  have 5: "sp_kv E (1 / 4 * (5 - 2 * r)) (sqrt 2 * sqrt r * sqrt (tau ^ 2) / l) = Inr Bv \<longrightarrow>
      gdMdef E tau (NuNum r) l = Inl (NameError ''_spgamma_'')"
    by (simp add: gdMdef_def)
  have 6: "gdMdef E tau (NuStr s) l = Inl TypeError"
    by (simp add: gdMdef_def)
  from 1 2 3 4 5 6 show ?thesis by blast
qed

theorem gMdef_gdMdef_never_return_witness:
  "NuNum 1 \<noteq> NuStr ''0.0'' \<and> NuNum 1 \<noteq> NuNum (5 / 2) \<and> NuNum 1 \<noteq> NuNum (7 / 2) \<and>
   kernel_gMdef example_externals 1 1 (NuNum (5 / 2)) = Inr (Num 1) \<and>
   kernel_gMdef example_externals 1 1 (NuNum 1) = Inr (Tup3 1 1 1) \<and>
   sp_kv example_externals (1 / 4 * (5 - 2 * 1)) (sqrt 2 * sqrt 1 * sqrt (1 ^ 2) / 1) = Inr 1 \<and>
   gMdef example_externals 1 (NuNum (5 / 2)) 1 = Inl (NameError ''_spkv_'') \<and>
   gMdef example_externals 1 (NuNum 1) 1 = Inl (NameError ''_spgamma_'') \<and>
   gdMdef example_externals 1 (NuNum 1) 1 = Inl (NameError ''_spgamma_'') \<and>
   gdMdef example_externals 1 (NuStr ''0.0'') 1 = Inl TypeError"
proof -
  have h1: "kernel_gMdef example_externals 1 1 (NuNum (5 / 2)) = Inr (Num 1)"
    by (simp add: example_externals_def)
  have h2: "kernel_gMdef example_externals 1 1 (NuNum 1) = Inr (Tup3 1 1 1)"
    by (simp add: example_externals_def)
  have h3: "sp_kv example_externals (1 / 4 * (5 - 2 * 1)) (sqrt 2 * sqrt 1 * sqrt (1 ^ 2) / 1) = Inr 1"
    by (simp add: example_externals_def)
  show ?thesis
    using gMdef_gdMdef_never_return
      [of "NuNum 1" example_externals 1 1 "Num 1" 1 1 1 1 1 "''0.0''"] h1 h2 h3
    by simp
qed

subsection \<open>Claims about the grid build\<close>

lemma example_schedules:
  "valid_schedule (length [0::real, 1] * length [1::real] * length [1::real]) [1, 0]"
  "valid_schedule (length [0::real, 1] * length [1::real] * length [1::real]) [0, 1]"
  by (auto simp: valid_schedule_def)

text \<open>
  Claim C6 fails on the code (a defect of the code). \<open>KcMM\<close> builds its work items as
  \<open>(tau, l2, l1)\<close> and \<open>gMMdef_integrand\<close> unpacks them as \<open>tau, l1, l2\<close>, so the entry
  at coordinate \<open>(tau_values[a], l2_values[b], l1_values[c])\<close> is the convolution integral
  with the two length-scales exchanged: \<open>nu1\<close> meets the \<open>l2\<close> value and \<open>nu2\<close> the \<open>l1\<close>
  value. For a first task of smoothness 7/2, a squared-exponential second task and the axes
  \<open>l1 = [1, 2]\<close>, \<open>l2 = [3, 4]\<close>, \<open>tau = [0, 2]\<close>, the build returns the same array
  under both completion orders, but not the array of the sequential enumeration: entry
  \<open>(0, 0, 0)\<close>, at \<open>tau = 0\<close>, \<open>l2 = 3\<close>, \<open>l1 = 1\<close>, is the integral taken with
  \<open>l1 = 3\<close>, \<open>l2 = 1\<close>.
\<close>

theorem KcMM_exchanges_length_scales:
  "KcMM example_externals example_object_mixed [7, 6, 5, 4, 3, 2, 1, 0] [1, 2] [3, 4] [0, 2] =
     Inr (RGI [0, 2] [3, 4] [1, 2]
            [[[3, 3], [4, 4]],
             [[3 * exp (- 2), 3 * exp (- (1 / 2))], [4 * exp (- 2), 4 * exp (- (1 / 2))]]]
            False None) \<and>
   KcMM example_externals example_object_mixed [0, 1, 2, 3, 4, 5, 6, 7] [1, 2] [3, 4] [0, 2] =
     KcMM example_externals example_object_mixed [7, 6, 5, 4, 3, 2, 1, 0] [1, 2] [3, 4] [0, 2] \<and>
   KernelGridBuilder_sequential example_externals (NuNum (7 / 2)) (NuStr ''0.0'') [1, 2] [3, 4] [0, 2] =
     Inr (RGI [0, 2] [3, 4] [1, 2]
            [[[1, 2], [1, 2]],
             [[exp (- (2 / 9)), 2 * exp (- (2 / 9))], [exp (- (1 / 8)), 2 * exp (- (1 / 8))]]]
            False None) \<and>
   KcMM example_externals example_object_mixed [7, 6, 5, 4, 3, 2, 1, 0] [1, 2] [3, 4] [0, 2] \<noteq>
     KernelGridBuilder_sequential example_externals (NuNum (7 / 2)) (NuStr ''0.0'') [1, 2] [3, 4] [0, 2] \<and>
   ConvolutionIntegrator example_externals (NuNum (7 / 2)) (NuStr ''0.0'') 0 3 1 = Inr 3 \<and>
   ConvolutionIntegrator example_externals (NuNum (7 / 2)) (NuStr ''0.0'') 0 1 3 = Inr 1"
proof -
  let ?code = "[[[3, 3], [4, 4]],
      [[3 * exp (- 2), 3 * exp (- (1 / 2))], [4 * exp (- 2), 4 * exp (- (1 / 2 :: real))]]]"
  have v: "valid_schedule (length [0::real, 2] * length [3::real, 4] * length [1::real, 2])
             [7, 6, 5, 4, 3, 2, 1, 0]"
    and v': "valid_schedule (length [0::real, 2] * length [3::real, 4] * length [1::real, 2])
             [0, 1, 2, 3, 4, 5, 6, 7]"
    by (auto simp: valid_schedule_def)
  have n: "nu1 example_object_mixed = Some (NuNum (7 / 2))"
          "nu2 example_object_mixed = Some (NuStr ''0.0'')"
    by (simp_all add: example_object_mixed_def)
  have items: "sequence_res (map (gMMdef_integrand example_externals example_object_mixed)
          (product3 [0, 2] [3, 4] [1, 2])) =
        Inr [3, 3, 4, 4, 3 * exp (- 2), 3 * exp (- (1 / 2)), 4 * exp (- 2), 4 * exp (- (1 / 2))]"
    by (simp add: product3_def bind_res_def gMMdef_integrand_def example_object_mixed_def
          example_externals_def gMdef_def gMdef_branch_def squared_exponential_def Let_def)
  have shape: "reshape3 (length [0::real, 2]) (length [3::real, 4]) (length [1::real, 2])
          [3, 3, 4, 4, 3 * exp (- 2), 3 * exp (- (1 / 2)), 4 * exp (- 2), 4 * exp (- (1 / 2 :: real))]
        = ?code"
    by (simp add: reshape3_def upt_rec_numeral)
  have chk: "rgi_check example_externals [0, 2] [3, 4] [1, 2] ?code = Inr ()"
    by (simp add: example_externals_def)
  have a: "KcMM example_externals example_object_mixed [7, 6, 5, 4, 3, 2, 1, 0] [1, 2] [3, 4] [0, 2] =
     Inr (RGI [0, 2] [3, 4] [1, 2] ?code False None)"
    by (rule KcMM_from_values[OF v items shape chk])
  have b: "KcMM example_externals example_object_mixed [0, 1, 2, 3, 4, 5, 6, 7] [1, 2] [3, 4] [0, 2] =
     KcMM example_externals example_object_mixed [7, 6, 5, 4, 3, 2, 1, 0] [1, 2] [3, 4] [0, 2]"
    unfolding a KcMM_schedule_independent[OF v v', THEN iffD1, OF a] ..
  have c: "KernelGridBuilder_sequential example_externals (NuNum (7 / 2)) (NuStr ''0.0'')
        [1, 2] [3, 4] [0, 2] =
     Inr (RGI [0, 2] [3, 4] [1, 2]
            [[[1, 2], [1, 2]],
             [[exp (- (2 / 9)), 2 * exp (- (2 / 9))], [exp (- (1 / 8)), 2 * exp (- (1 / 8))]]]
            False None)"
    by (simp add: KernelGridBuilder_sequential_def ConvolutionIntegrator_def bind_res_def
          example_externals_def gMdef_def gMdef_branch_def squared_exponential_def Let_def)
  have d: "KcMM example_externals example_object_mixed [7, 6, 5, 4, 3, 2, 1, 0] [1, 2] [3, 4] [0, 2] \<noteq>
     KernelGridBuilder_sequential example_externals (NuNum (7 / 2)) (NuStr ''0.0'') [1, 2] [3, 4] [0, 2]"
    unfolding a c by simp
  have "ConvolutionIntegrator example_externals (NuNum (7 / 2)) (NuStr ''0.0'')
          ([0, 2] ! 0) ([3, 4] ! 0) ([1, 2] ! 0) =
        Inr (grid_values (RGI [0, 2] [3, 4] [1, 2] ?code False None) ! 0 ! 0 ! 0)"
    by (rule KcMM_entry[OF v a n]) simp_all
  then have e: "ConvolutionIntegrator example_externals (NuNum (7 / 2)) (NuStr ''0.0'') 0 3 1 = Inr 3"
    by simp
  have f: "ConvolutionIntegrator example_externals (NuNum (7 / 2)) (NuStr ''0.0'') 0 1 3 = Inr 1"
    by (simp add: ConvolutionIntegrator_def bind_res_def example_externals_def gMdef_def
          gMdef_branch_def squared_exponential_def Let_def)
  from a b c d e f show ?thesis by blast
qed

text \<open>
  Claim C8. An interpolator returned by \<open>KcMM\<close> is built with bounds errors disabled and
  no fill value, so evaluating it at a query point outside the fitted grid domain never
  raises a bounds error.
\<close>

theorem KcMM_interpolator_no_bounds_error:
  "KcMM E K sched l1_values l2_values tau_values = Inr g \<Longrightarrow>
     bounds_error g = False \<and> fill_value g = None \<and> rgi_bounds_check g q = Inr ()"
  by (auto simp: KcMM_Inr_iff rgi_bounds_check_def)

lemma example_KcMM:
  "KcMM example_externals example_object [1, 0] [1] [1] [0, 1] =
     Inr (RGI [0, 1] [1] [1] [[[1]], [[exp (- (1 / 2))]]] False None)"
proof (rule KcMM_from_values[OF example_schedules(1)])
  show "sequence_res (map (gMMdef_integrand example_externals example_object)
          (product3 [0, 1] [1] [1])) = Inr [1, exp (- (1 / 2))]"
    by (simp add: product3_def bind_res_def gMMdef_integrand_def example_object_def
          example_externals_def gMdef_def gMdef_branch_def squared_exponential_def Let_def)
  show "reshape3 (length [0::real, 1]) (length [1::real]) (length [1::real])
          [1, exp (- (1 / 2)) :: real] = [[[1]], [[exp (- (1 / 2))]]]"
    by (simp add: reshape3_def upt_rec_numeral)
  show "rgi_check example_externals [0, 1] [1] [1] [[[1]], [[exp (- (1 / 2))]]] = Inr ()"
    by (simp add: example_externals_def)
qed

theorem KcMM_interpolator_no_bounds_error_witness:
  "KcMM example_externals example_object [1, 0] [1] [1] [0, 1] =
     Inr (RGI [0, 1] [1] [1] [[[1]], [[exp (- (1 / 2))]]] False None) \<and>
   \<not> in_domain (RGI [0, 1] [1] [1] [[[1]], [[exp (- (1 / 2))]]] False None) (50, 7, 9) \<and>
   rgi_bounds_check (RGI [0, 1] [1] [1] [[[1]], [[exp (- (1 / 2))]]] False None) (50, 7, 9) = Inr ()"
  using KcMM_interpolator_no_bounds_error [OF example_KcMM, of "(50, 7, 9)"] example_KcMM
  by (simp add: in_domain_def within_axis_def)

subsection \<open>Claims about the constructor\<close>

text \<open>
  Claim C2. When the number of data arrays differs from the configured task count, the
  constructor raises the configuration error on the object as it is before the pair loop:
  no work item has been dispatched and no grid is stored. When the counts agree, the
  constructor is the pair loop, and the exception of the length check on the untouched
  object does not occur.
\<close>

theorem Kernels_init_length_check:
  "(length dat \<noteq> MTGP_n_Tasks cfg \<longrightarrow>
      Kernels_init E cfg dat =
        Inl (ValueError (mismatch_message (length dat) (MTGP_n_Tasks cfg)), initial_object cfg dat) \<and>
      dispatched (initial_object cfg dat) = 0 \<and> CovMat (initial_object cfg dat) = Map.empty) \<and>
   (length dat = MTGP_n_Tasks cfg \<longrightarrow>
      Kernels_init E cfg dat =
        pair_loop E cfg (initial_object cfg dat) (all_pairs (MTGP_n_Tasks cfg)) \<and>
      (\<forall>m. Kernels_init E cfg dat \<noteq> Inl (ValueError m, initial_object cfg dat)))"
proof (intro conjI impI allI)
  assume "length dat \<noteq> MTGP_n_Tasks cfg"
  then show "Kernels_init E cfg dat =
      Inl (ValueError (mismatch_message (length dat) (MTGP_n_Tasks cfg)), initial_object cfg dat)"
    by (rule Kernels_init_mismatch)
next
  show "dispatched (initial_object cfg dat) = 0" by (simp add: initial_object_def)
next
  show "CovMat (initial_object cfg dat) = Map.empty" by (simp add: initial_object_def)
next
  assume "length dat = MTGP_n_Tasks cfg"
  then show "Kernels_init E cfg dat =
      pair_loop E cfg (initial_object cfg dat) (all_pairs (MTGP_n_Tasks cfg))"
    by (rule Kernels_init_matching)
next
  fix m
  assume len: "length dat = MTGP_n_Tasks cfg"
  show "Kernels_init E cfg dat \<noteq> Inl (ValueError m, initial_object cfg dat)"
  proof
    assume "Kernels_init E cfg dat = Inl (ValueError m, initial_object cfg dat)"
    then have "pair_loop E cfg (initial_object cfg dat) (all_pairs (MTGP_n_Tasks cfg)) =
        Inl (ValueError m, initial_object cfg dat)"
      by (simp add: Kernels_init_matching[OF len])
    from pair_loop_raise_cases[OF this] show False by (simp add: initial_object_def)
  qed
qed

lemma example_config_n_Tasks: "MTGP_n_Tasks (example_config n) = n"
  by (simp add: example_config_def)

lemma example_mismatch_message:
  "mismatch_message 2 3 = ''Error: data length is 2 and does not match the number of kernels 3''"
  by (simp add: mismatch_message_def str_nat.simps digit_char_def)

theorem Kernels_init_length_check_witness:
  "length [[0], [1::real]] \<noteq> MTGP_n_Tasks (example_config 3) \<and>
   Kernels_init example_externals (example_config 3) [[0], [1]] =
     Inl (ValueError ''Error: data length is 2 and does not match the number of kernels 3'',
          initial_object (example_config 3) [[0], [1]]) \<and>
   dispatched (initial_object (example_config 3) [[0], [1]]) = 0 \<and>
   length [[0::real]] = MTGP_n_Tasks (example_config 1) \<and>
   (\<forall>m. Kernels_init example_externals (example_config 1) [[0]] \<noteq>
          Inl (ValueError m, initial_object (example_config 1) [[0]]))"
proof -
  note T3 = Kernels_init_length_check [of "[[0], [1]]" "example_config 3" example_externals]
  note T1 = Kernels_init_length_check [of "[[0]]" "example_config 1" example_externals]
  have l3: "length [[0], [1::real]] \<noteq> MTGP_n_Tasks (example_config 3)"
    by (simp add: example_config_n_Tasks)
  have l1: "length [[0::real]] = MTGP_n_Tasks (example_config 1)"
    by (simp add: example_config_n_Tasks)
  have two: "length [[0], [1::real]] = 2" by simp
  from T3 l3 have "Kernels_init example_externals (example_config 3) [[0], [1]] =
      Inl (ValueError (mismatch_message (length [[0], [1::real]]) (MTGP_n_Tasks (example_config 3))),
           initial_object (example_config 3) [[0], [1]])"
    by blast
  then have a: "Kernels_init example_externals (example_config 3) [[0], [1]] =
      Inl (ValueError ''Error: data length is 2 and does not match the number of kernels 3'',
           initial_object (example_config 3) [[0], [1]])"
    by (simp only: two example_config_n_Tasks example_mismatch_message)
  from T3 l3 have b: "dispatched (initial_object (example_config 3) [[0], [1]]) = 0"
    by blast
  from T1 l1 have c: "\<forall>m. Kernels_init example_externals (example_config 1) [[0]] \<noteq>
          Inl (ValueError m, initial_object (example_config 1) [[0]])"
    by blast
  from l3 a b l1 c show ?thesis by blast
qed

subsection \<open>The constructor on the example configurations\<close>

lemma sequence_res_all_Inr:
  "(\<forall>r \<in> set rs. \<exists>v. r = Inr v) \<Longrightarrow> \<exists>vs. sequence_res rs = Inr vs"
proof (induction rs)
  case Nil
  then show ?case by simp
next
  case (Cons r rs)
  then obtain v vs where "r = Inr v" "sequence_res rs = Inr vs" by auto
  then show ?case by simp
qed

lemma example_integrand_ok:
  assumes "nu1 K = Some (NuStr ''0.0'')" "nu2 K = Some (NuStr ''0.0'')"
  shows "\<exists>v. gMMdef_integrand example_externals K p = Inr v"
  using assms
  by (cases p)
     (auto simp: gMMdef_integrand_def example_externals_def gMdef_def gMdef_branch_def
                 squared_exponential_def bind_res_def Let_def)

lemma example_KcMM_ok:
  assumes "nu1 K = Some (NuStr ''0.0'')" "nu2 K = Some (NuStr ''0.0'')"
    and "valid_schedule (length taus * length l2s * length l1s) sched"
  shows "\<exists>g. KcMM example_externals K sched l1s l2s taus = Inr g"
proof -
  have "\<forall>r \<in> set (map (gMMdef_integrand example_externals K) (product3 taus l2s l1s)). \<exists>v. r = Inr v"
    using example_integrand_ok[OF assms(1,2)] by auto
  from sequence_res_all_Inr[OF this] obtain ys where
    "sequence_res (map (gMMdef_integrand example_externals K) (product3 taus l2s l1s)) = Inr ys"
    by blast
  moreover have "rgi_check example_externals taus l2s l1s
      (reshape3 (length taus) (length l2s) (length l1s) ys) = Inr ()"
    by (simp add: example_externals_def)
  ultimately show ?thesis
    unfolding KcMM_valid_Inr_iff[OF assms(3)] by blast
qed

lemma length_linspace: "length (linspace a b n) = n"
  by (simp add: linspace_def)

lemma example_schedule8: "valid_schedule (2 * 2 * 2) [7, 6, 5, 4, 3, 2, 1, 0]"
  by (auto simp: valid_schedule_def)

lemma example_Task:
  "i < n \<Longrightarrow> MTGP_Task (example_config n) (task_key i) = Some \<lparr>l_min = 1, l_max = 2\<rparr>"
  by (simp add: example_config_def)

lemma example_n_points: "MTGP_n_points (example_config n) = 2"
  by (simp add: example_config_def)

lemma example_completion_order: "completion_order example_externals p = [7, 6, 5, 4, 3, 2, 1, 0]"
  by (simp add: example_externals_def)

lemma example_pair_step:
  assumes "i \<le> j" "j < n" "nus K = replicate n (NuStr ''0.0'')" "j < length (data K)"
  shows "\<exists>g. pair_step example_externals (example_config n) K (i, j) =
           Inr (K\<lparr>nu1 := Some (NuStr ''0.0''), nu2 := Some (NuStr ''0.0''),
                  dispatched := dispatched K + 8,
                  CovMat := (CovMat K)(pair_key i j \<mapsto> Interpolator g),
                  data_tau := (data_tau K)(pair_key i j \<mapsto> lag_matrix (data K ! i) (data K ! j))\<rparr>)"
proof -
  let ?K3 = "K\<lparr>nu1 := Some (NuStr ''0.0''), nu2 := Some (NuStr ''0.0''),
                dispatched := dispatched K + 8\<rparr>"
  let ?ls = "linspace 1 2 2" and ?ts = "linspace (- 10) 10 2"
  have "valid_schedule (length ?ts * length ?ls * length ?ls) [7, 6, 5, 4, 3, 2, 1, 0]"
    using example_schedule8 by (simp only: length_linspace)
  from example_KcMM_ok[OF _ _ this, of ?K3] obtain g where
    g: "KcMM example_externals ?K3 [7, 6, 5, 4, 3, 2, 1, 0] ?ls ?ls ?ts = Inr g" by auto
  have i: "i < n" using assms by simp
  have len: "length (product3 ?ts ?ls ?ls) = 8" by (simp add: length_product3 length_linspace)
  show ?thesis
    using assms i g
    by (intro exI[of _ g])
       (simp add: pair_step_def try_at_def Let_def nth_res_def lookup_res_def
            example_Task example_n_points example_completion_order len)
qed


lemma example_first_row_two_tasks:
  assumes "length dat = 2"
  shows "\<exists>K0. pair_loop example_externals (example_config 2) (initial_object (example_config 2) dat)
                (map (Pair 0) [0..<MTGP_n_Tasks (example_config 2)]) = Inr K0 \<and>
              nTasks K0 = 2 \<and>
              data_tau K0 ''t_00'' = Some (lag_matrix (dat ! 0) (dat ! 0)) \<and>
              data_tau K0 ''t_01'' = Some (lag_matrix (dat ! 0) (dat ! 1)) \<and>
              data_tau K0 ''t_10'' = None \<and> dispatched K0 = 16"
proof -
  let ?K = "initial_object (example_config 2) dat"
  have row: "map (Pair (0::nat)) [0..<MTGP_n_Tasks (example_config 2)] = [(0, 0), (0, Suc 0)]"
    by (simp add: example_config_n_Tasks numeral_2_eq_2)
  have k01: "pair_key 0 (Suc 0) = ''t_01''" "pair_key 0 0 = ''t_00''"
    by (simp_all add: pair_key_def str_nat_0 str_nat_1)
  have nK: "nus ?K = replicate 2 (NuStr ''0.0'')" "data ?K = dat"
    by (simp_all add: initial_object_def example_config_def)
  have "\<exists>g. pair_step example_externals (example_config 2) ?K (0, 0) =
           Inr (?K\<lparr>nu1 := Some (NuStr ''0.0''), nu2 := Some (NuStr ''0.0''),
                  dispatched := dispatched ?K + 8,
                  CovMat := (CovMat ?K)(pair_key 0 0 \<mapsto> Interpolator g),
                  data_tau := (data_tau ?K)(pair_key 0 0 \<mapsto> lag_matrix (data ?K ! 0) (data ?K ! 0))\<rparr>)"
    by (rule example_pair_step) (use nK assms in simp_all)
  then obtain g0 where
    s0: "pair_step example_externals (example_config 2) ?K (0, 0) =
           Inr (?K\<lparr>nu1 := Some (NuStr ''0.0''), nu2 := Some (NuStr ''0.0''),
                  dispatched := dispatched ?K + 8,
                  CovMat := (CovMat ?K)(pair_key 0 0 \<mapsto> Interpolator g0),
                  data_tau := (data_tau ?K)(pair_key 0 0 \<mapsto> lag_matrix (data ?K ! 0) (data ?K ! 0))\<rparr>)"
      (is "_ = Inr ?K1")
    by blast
  have nK1: "nus ?K1 = replicate 2 (NuStr ''0.0'')" "data ?K1 = dat"
    using nK by simp_all
  have "\<exists>g. pair_step example_externals (example_config 2) ?K1 (0, Suc 0) =
           Inr (?K1\<lparr>nu1 := Some (NuStr ''0.0''), nu2 := Some (NuStr ''0.0''),
                  dispatched := dispatched ?K1 + 8,
                  CovMat := (CovMat ?K1)(pair_key 0 (Suc 0) \<mapsto> Interpolator g),
                  data_tau := (data_tau ?K1)(pair_key 0 (Suc 0) \<mapsto>
                     lag_matrix (data ?K1 ! 0) (data ?K1 ! Suc 0))\<rparr>)"
    by (rule example_pair_step) (use nK assms in simp_all)
  then obtain g1 where
    s1: "pair_step example_externals (example_config 2) ?K1 (0, Suc 0) =
           Inr (?K1\<lparr>nu1 := Some (NuStr ''0.0''), nu2 := Some (NuStr ''0.0''),
                  dispatched := dispatched ?K1 + 8,
                  CovMat := (CovMat ?K1)(pair_key 0 (Suc 0) \<mapsto> Interpolator g1),
                  data_tau := (data_tau ?K1)(pair_key 0 (Suc 0) \<mapsto>
                     lag_matrix (data ?K1 ! 0) (data ?K1 ! Suc 0))\<rparr>)"
      (is "_ = Inr ?K2")
    by blast
  have "pair_loop example_externals (example_config 2) ?K
          (map (Pair 0) [0..<MTGP_n_Tasks (example_config 2)]) = Inr ?K2"
    unfolding row using s0 s1 by simp
  moreover have "nTasks ?K2 = 2" by (simp add: initial_object_def example_config_def)
  moreover have "data_tau ?K2 ''t_00'' = Some (lag_matrix (dat ! 0) (dat ! 0))"
    using nK by (simp add: k01)
  moreover have "data_tau ?K2 ''t_01'' = Some (lag_matrix (dat ! 0) (dat ! 1))"
    using nK by (simp add: k01)
  moreover have "data_tau ?K2 ''t_10'' = None"
    by (simp add: k01 initial_object_def)
  moreover have "dispatched ?K2 = 16" by (simp add: initial_object_def)
  ultimately show ?thesis by blast
qed

lemma example_two_tasks_KeyError:
  assumes "length dat = 2"
  shows "\<exists>K. Kernels_init example_externals (example_config 2) dat = Inl (KeyError ''t_10'', K) \<and>
             data_tau K ''t_01'' = Some (lag_matrix (dat ! 0) (dat ! 1)) \<and>
             data_tau K ''t_10'' = None \<and> dispatched K = 16"
proof -
  from example_first_row_two_tasks[OF assms] obtain K0 where
    row: "pair_loop example_externals (example_config 2) (initial_object (example_config 2) dat)
                (map (Pair 0) [0..<MTGP_n_Tasks (example_config 2)]) = Inr K0"
    and d: "data_tau K0 ''t_01'' = Some (lag_matrix (dat ! 0) (dat ! 1))" "data_tau K0 ''t_10'' = None"
       "dispatched K0 = 16"
    by blast
  have "Kernels_init example_externals (example_config 2) dat =
          Inl (KeyError ''t_10'', K0\<lparr>nu1 := Some (MTGP_nus (example_config 2) ! 1),
                                     nu2 := Some (MTGP_nus (example_config 2) ! 0)\<rparr>)"
    using assms by (intro two_tasks_KeyError row) (simp_all add: example_config_def)
  with d show ?thesis by simp
qed

lemma example_one_task:
  assumes "length dat = 1"
  shows "\<exists>K g. Kernels_init example_externals (example_config 1) dat = Inr K \<and> nTasks K = 1 \<and>
             CovMat K ''t_00'' = Some (Interpolator g) \<and>
             data_tau K ''t_00'' = Some (lag_matrix (dat ! 0) (dat ! 0))"
proof -
  let ?K = "initial_object (example_config 1) dat"
  have nK: "nus ?K = replicate 1 (NuStr ''0.0'')" "data ?K = dat"
    by (simp_all add: initial_object_def example_config_def)
  have k00: "pair_key 0 0 = ''t_00''" by (simp add: pair_key_def str_nat_0)
  have "\<exists>g. pair_step example_externals (example_config 1) ?K (0, 0) =
           Inr (?K\<lparr>nu1 := Some (NuStr ''0.0''), nu2 := Some (NuStr ''0.0''),
                  dispatched := dispatched ?K + 8,
                  CovMat := (CovMat ?K)(pair_key 0 0 \<mapsto> Interpolator g),
                  data_tau := (data_tau ?K)(pair_key 0 0 \<mapsto> lag_matrix (data ?K ! 0) (data ?K ! 0))\<rparr>)"
    by (rule example_pair_step) (use nK assms in simp_all)
  then obtain g0 where
    s0: "pair_step example_externals (example_config 1) ?K (0, 0) =
           Inr (?K\<lparr>nu1 := Some (NuStr ''0.0''), nu2 := Some (NuStr ''0.0''),
                  dispatched := dispatched ?K + 8,
                  CovMat := (CovMat ?K)(pair_key 0 0 \<mapsto> Interpolator g0),
                  data_tau := (data_tau ?K)(pair_key 0 0 \<mapsto> lag_matrix (data ?K ! 0) (data ?K ! 0))\<rparr>)"
      (is "_ = Inr ?K1")
    by blast
  have "all_pairs (MTGP_n_Tasks (example_config 1)) = [(0, 0)]"
    by (simp add: example_config_n_Tasks all_pairs_def)
  then have "Kernels_init example_externals (example_config 1) dat = Inr ?K1"
    using s0 assms by (simp add: Kernels_init_matching example_config_n_Tasks)
  moreover have "nTasks ?K1 = 1" by (simp add: initial_object_def example_config_def)
  moreover have "CovMat ?K1 ''t_00'' = Some (Interpolator g0)" by (simp add: k00)
  moreover have "data_tau ?K1 ''t_00'' = Some (lag_matrix (dat ! 0) (dat ! 0))"
    using nK by (simp add: k00)
  ultimately show ?thesis by blast
qed

text \<open>
  Claim C3, as stated, fails in two places. A configuration with zero tasks and no data
  arrays is constructed successfully, the loop body never running, so success does not
  force a task count of exactly one. And a configuration with two tasks does not always
  end in the key-lookup error: with the smoothness 5/2 the first grid build already raises
  the name error of \<open>gMdef\<close>.
\<close>

theorem Kernels_init_zero_tasks_counterexample:
  "MTGP_n_Tasks (example_config 0) \<noteq> 1 \<and>
   Kernels_init example_externals (example_config 0) [] = Inr (initial_object (example_config 0) []) \<and>
   2 \<le> MTGP_n_Tasks ((example_config 2)\<lparr>MTGP_nus := [NuNum (5 / 2), NuNum (5 / 2)]\<rparr>) \<and>
   (case Kernels_init example_externals
           ((example_config 2)\<lparr>MTGP_nus := [NuNum (5 / 2), NuNum (5 / 2)]\<rparr>) [[0], [1]] of
      Inl (e, K) \<Rightarrow> Some e | Inr K \<Rightarrow> None) = Some (NameError ''_spkv_'')"
proof -
  let ?cfg = "(example_config 2)\<lparr>MTGP_nus := [NuNum (5 / 2), NuNum (5 / 2)]\<rparr>"
  let ?K = "initial_object ?cfg [[0], [1]]"
  let ?K3 = "?K\<lparr>nu1 := Some (NuNum (5 / 2)), nu2 := Some (NuNum (5 / 2)), dispatched := 8\<rparr>"
  have a: "MTGP_n_Tasks (example_config 0) \<noteq> 1" by (simp add: example_config_n_Tasks)
  have b: "Kernels_init example_externals (example_config 0) [] = Inr (initial_object (example_config 0) [])"
    by (simp add: Kernels_init_matching example_config_n_Tasks all_pairs_def)
  have c: "2 \<le> MTGP_n_Tasks ?cfg" by (simp add: example_config_def)
  have f: "gMMdef_integrand example_externals ?K3 p = Inl (NameError ''_spkv_'')" for p
    by (cases p)
       (simp add: gMMdef_integrand_def example_externals_def gMdef_def gMdef_branch_def bind_res_def)
  have S: "set [7, 6, 5, 4, 3, 2, 1, 0::nat] =
             {..<length (product3 (linspace (- 10) 10 2) (linspace 1 2 2) (linspace 1 2 2))}"
    using example_schedule8 by (simp add: valid_schedule_def length_product3 length_linspace)
  have "pool_map (gMMdef_integrand example_externals ?K3)
          (product3 (linspace (- 10) 10 2) (linspace 1 2 2) (linspace 1 2 2))
          [7, 6, 5, 4, 3, 2, 1, 0] = Inl (NameError ''_spkv_'')"
    unfolding pool_map_unfold[OF S] by (simp add: f)
  then have k: "KcMM example_externals ?K3 [7, 6, 5, 4, 3, 2, 1, 0]
          (linspace 1 2 2) (linspace 1 2 2) (linspace (- 10) 10 2) = Inl (NameError ''_spkv_'')"
    by (simp add: KcMM_def Let_def bind_res_def)
  have len: "length (product3 (linspace (- 10) 10 2) (linspace 1 2 2) (linspace 1 2 2)) = 8"
    by (simp add: length_product3 length_linspace)
  have T: "MTGP_Task (example_config 2) (task_key 0) = Some \<lparr>l_min = 1, l_max = 2\<rparr>"
    by (rule example_Task) simp
  have s: "pair_step example_externals ?cfg ?K (0, 0) = Inl (NameError ''_spkv_'', ?K3)"
    using k
    by (simp add: pair_step_def try_at_def Let_def nth_res_def lookup_res_def T
          example_n_points example_completion_order len initial_object_def)
  have "\<exists>rest. all_pairs (MTGP_n_Tasks ?cfg) = (0, 0) # rest"
    by (simp add: all_pairs_def example_config_def numeral_2_eq_2 upt_conv_Cons)
  then obtain rest where "all_pairs (MTGP_n_Tasks ?cfg) = (0, 0) # rest" by blast
  then have "Kernels_init example_externals ?cfg [[0], [1]] = Inl (NameError ''_spkv_'', ?K3)"
    using s by (simp add: Kernels_init_matching example_config_def)
  then have d: "(case Kernels_init example_externals ?cfg [[0], [1]] of
      Inl (e, K) \<Rightarrow> Some e | Inr K \<Rightarrow> None) = Some (NameError ''_spkv_'')"
    by simp
  from a b c d show ?thesis by blast
qed

text \<open>
  Claim C3, amended. For every configuration with at least two tasks and a matching number
  of data arrays, construction never completes. The pairs \<open>(0, j)\<close> of the first row either
  raise (a missing smoothness or task section, a failed grid build) or store keys of pairs
  with \<open>i \<le> j\<close> only; in the second case the loop reaches the pair \<open>(1, 0)\<close>, reads
  \<open>data_tau\<close> under the key \<open>'t_10'\<close>, which was never stored, and the constructor raises
  the key-lookup error. The constructor completes only when the task count is at most one.
\<close>

theorem Kernels_init_two_tasks_never_completes:
  "(2 \<le> MTGP_n_Tasks cfg \<longrightarrow> length dat = MTGP_n_Tasks cfg \<longrightarrow>
      (\<exists>e K. Kernels_init E cfg dat = Inl (e, K)) \<and>
      (\<forall>K0. pair_loop E cfg (initial_object cfg dat) (map (Pair 0) [0..<MTGP_n_Tasks cfg]) = Inr K0 \<longrightarrow>
            2 \<le> length (MTGP_nus cfg) \<longrightarrow>
            data_tau K0 (pair_key 1 0) = None \<and>
            Kernels_init E cfg dat =
              Inl (KeyError ''t_10'',
                   K0\<lparr>nu1 := Some (MTGP_nus cfg ! 1), nu2 := Some (MTGP_nus cfg ! 0)\<rparr>))) \<and>
   (\<forall>K. Kernels_init E cfg dat = Inr K \<longrightarrow> MTGP_n_Tasks cfg \<le> 1)"
  using two_tasks_never_complete[of cfg dat E] two_tasks_KeyError[of cfg dat E]
        two_tasks_after_first_row(1)[of cfg dat E] Kernels_init_Inr_at_most_one(1)[of E cfg dat]
  by blast

theorem Kernels_init_two_tasks_never_completes_witness:
  "2 \<le> MTGP_n_Tasks (example_config 2) \<and>
   length [[0, 1], [5::real]] = MTGP_n_Tasks (example_config 2) \<and>
   2 \<le> length (MTGP_nus (example_config 2)) \<and>
   (\<exists>K0. pair_loop example_externals (example_config 2) (initial_object (example_config 2) [[0, 1], [5]])
            (map (Pair 0) [0..<MTGP_n_Tasks (example_config 2)]) = Inr K0 \<and>
          Kernels_init example_externals (example_config 2) [[0, 1], [5]] =
            Inl (KeyError ''t_10'',
                 K0\<lparr>nu1 := Some (MTGP_nus (example_config 2) ! 1),
                      nu2 := Some (MTGP_nus (example_config 2) ! 0)\<rparr>)) \<and>
   (\<exists>K. Kernels_init example_externals (example_config 1) [[0]] = Inr K) \<and>
   MTGP_n_Tasks (example_config 1) \<le> 1"
proof -
  note T2 = Kernels_init_two_tasks_never_completes
              [of "example_config 2" "[[0, 1], [5]]" example_externals]
  note T1 = Kernels_init_two_tasks_never_completes
              [of "example_config 1" "[[0]]" example_externals]
  have a: "2 \<le> MTGP_n_Tasks (example_config 2)"
    and b: "length [[0, 1], [5::real]] = MTGP_n_Tasks (example_config 2)"
    and c: "2 \<le> length (MTGP_nus (example_config 2))"
    by (simp_all add: example_config_def)
  from example_first_row_two_tasks[of "[[0, 1], [5]]"] obtain K0 where
    row: "pair_loop example_externals (example_config 2) (initial_object (example_config 2) [[0, 1], [5]])
            (map (Pair 0) [0..<MTGP_n_Tasks (example_config 2)]) = Inr K0"
    by auto
  from T2 a b c row have d: "Kernels_init example_externals (example_config 2) [[0, 1], [5]] =
            Inl (KeyError ''t_10'',
                 K0\<lparr>nu1 := Some (MTGP_nus (example_config 2) ! 1),
                      nu2 := Some (MTGP_nus (example_config 2) ! 0)\<rparr>)"
    by blast
  from example_one_task[of "[[0]]"] obtain K where
    e: "Kernels_init example_externals (example_config 1) [[0]] = Inr K" by auto
  with T1 have f: "MTGP_n_Tasks (example_config 1) \<le> 1" by blast
  from a b c row d e f show ?thesis by blast
qed

text \<open>
  Claim C4 fails on the code (a defect of the code, shared with claim C1): with two tasks
  and data arrays \<open>[0, 1]\<close> and \<open>[5]\<close> the constructor raises the key-lookup error at the
  pair \<open>(1, 0)\<close>. At that point the lag matrix of \<open>(0, 1)\<close> is stored and none is stored
  for \<open>(1, 0)\<close>; the constructor never completes.
\<close>

theorem Kernels_init_lag_matrix_two_tasks:
  "\<exists>K. Kernels_init example_externals (example_config 2) [[0, 1], [5]] = Inl (KeyError ''t_10'', K) \<and>
       data_tau K ''t_01'' = Some [[- 5], [- 4]] \<and> data_tau K ''t_10'' = None"
proof -
  from example_two_tasks_KeyError[of "[[0, 1], [5]]"] obtain K where
    "Kernels_init example_externals (example_config 2) [[0, 1], [5]] = Inl (KeyError ''t_10'', K)"
    "data_tau K ''t_01'' = Some (lag_matrix ([[0, 1], [5]] ! 0) ([[0, 1], [5]] ! 1))"
    "data_tau K ''t_10'' = None"
    by auto
  then show ?thesis by (intro exI[of _ K]) (simp add: lag_matrix_def)
qed

text \<open>
  Claim C1 fails on the code (the same defect): for two squared-exponential tasks with
  one observation each and the parameter matrix of unit amplitudes and length-scales,
  construction followed by evaluation raises the key-lookup error of the constructor, so no
  covariance matrix, symmetric or not, is returned.
\<close>

theorem Kernels_call_two_tasks_no_matrix:
  "(case Kernels_init example_externals (example_config 2) [[0], [1]] of
      Inl (e, K) \<Rightarrow> Inl e
    | Inr K \<Rightarrow> Kernels_call example_externals K [[1, 1], [1, 1]]) = Inl (KeyError ''t_10'')"
proof -
  from example_two_tasks_KeyError[of "[[0], [1]]"] obtain K where
    "Kernels_init example_externals (example_config 2) [[0], [1]] = Inl (KeyError ''t_10'', K)"
    by auto
  then show ?thesis by simp
qed

subsection \<open>Claims about the evaluation\<close>









end
